theory Spec2Isabelle
  imports Complex_Main "HOL-Library.Sublist"
begin

section \<open>The generative model of the notebook\<close>

text \<open>
  The notebook \<^verbatim>\<open>model_evaluation.ipynb\<close> defines one function of its own,
  \<^verbatim>\<open>model(y)\<close>, and otherwise issues a straight line of calls into external
  libraries. The function talks to the probabilistic-programming library through one
  primitive, \<^verbatim>\<open>pyro.sample(name, fn, obs=...)\<close>. A call of the primitive is an
  effect: it records a site (name, distribution, observed or not, value) in the trace
  of the current execution and returns the site's value. Without \<^verbatim>\<open>obs\<close> the
  value is supplied by whoever runs the model (the prior sampler, or the kernel that
  proposes a value); with \<^verbatim>\<open>obs\<close> the value is the observation itself.

  The type \<open>'v\<close> stands for the tensor values that flow through the model (the drawn
  parameter and the observations). The model does no arithmetic on them, so the type
  is left open. The bounds of the prior are the literals \<^verbatim>\<open>0.0\<close> and
  \<^verbatim>\<open>1.0\<close>.
\<close>

datatype 'v dist = Uniform real real | Bernoulli 'v

record 'v site =
  name :: string
  fn :: "'v dist"
  is_observed :: bool
  val :: 'v

type_synonym 'v trace = "'v site list"

type_synonym 'v handler = "string \<Rightarrow> 'v dist \<Rightarrow> 'v"

definition sample ::
  "'v handler \<Rightarrow> string \<Rightarrow> 'v dist \<Rightarrow> 'v option \<Rightarrow> 'v trace \<Rightarrow> 'v \<times> 'v trace" where
  "sample h nm d obs tr =
     (case obs of
        None \<Rightarrow>
          (let v = h nm d
           in (v, tr @ [\<lparr>name = nm, fn = d, is_observed = False, val = v\<rparr>]))
      | Some v \<Rightarrow> (v, tr @ [\<lparr>name = nm, fn = d, is_observed = True, val = v\<rparr>]))"

text \<open>
  \<^verbatim>\<open>"obs_{}".format(i)\<close> writes the index in decimal, without padding.
\<close>

definition digit_char :: "nat \<Rightarrow> char" where
  "digit_char d = ''0123456789'' ! d"

function format_nat :: "nat \<Rightarrow> string" where
  "format_nat n =
     (if n < 10 then [digit_char n]
      else format_nat (n div 10) @ [digit_char (n mod 10)])"
  by pat_completeness auto
termination
  by (relation "measure (\<lambda>n. n)") auto

declare format_nat.simps [simp del]

definition obs_name :: "nat \<Rightarrow> string" where
  "obs_name i = ''obs_'' @ format_nat i"

text \<open>
  Reading a decimal numeral back, used to show that the site names are pairwise
  different.
\<close>

definition digit_val :: "char \<Rightarrow> nat" where
  "digit_val c = of_char c - 48"

definition parse_nat :: "string \<Rightarrow> nat" where
  "parse_nat cs = foldl (\<lambda>a c. 10 * a + digit_val c) 0 cs"

text \<open>
  The body of \<^verbatim>\<open>for i in range(len(y))\<close>, from index \<open>i\<close> on. The read
  \<^verbatim>\<open>y[i]\<close> happens only under \<open>i < length y\<close>, so it never raises.
\<close>

function model_loop ::
  "'v handler \<Rightarrow> 'v \<Rightarrow> 'v list \<Rightarrow> nat \<Rightarrow> 'v trace \<Rightarrow> 'v trace" where
  "model_loop h underlying_p y i tr =
     (if i < length y then
        (let y_hidden_dist = Bernoulli underlying_p;
             (y_real, tr') = sample h (obs_name i) y_hidden_dist (Some (y ! i)) tr
         in model_loop h underlying_p y (Suc i) tr')
      else tr)"
  by pat_completeness auto
termination
  by (relation "measure (\<lambda>(h, p, y, i, tr). length y - i)") auto

declare model_loop.simps [simp del]

definition model :: "'v handler \<Rightarrow> 'v list \<Rightarrow> 'v trace \<Rightarrow> 'v trace" where
  "model h y tr =
     (let (underlying_p, tr1) = sample h ''p'' (Uniform 0.0 1.0) None tr
      in model_loop h underlying_p y 0 tr1)"

definition prior_site :: "'v \<Rightarrow> 'v site" where
  "prior_site p = \<lparr>name = ''p'', fn = Uniform 0 1, is_observed = False, val = p\<rparr>"

definition obs_site :: "'v \<Rightarrow> 'v list \<Rightarrow> nat \<Rightarrow> 'v site" where
  "obs_site p y i =
     \<lparr>name = obs_name i, fn = Bernoulli p, is_observed = True, val = y ! i\<rparr>"

section \<open>The likelihood of a trace\<close>






section \<open>The cells of the notebook\<close>

text \<open>
  Apart from \<^verbatim>\<open>model\<close>, the notebook is a sequence of cells that call
  scikit-learn and pyro in a fixed order. What these libraries compute is not part of
  the repository, so a cell is modelled by what it does itself: the calls it issues, in
  order and with the arguments the notebook writes, and the objects it passes from one
  call to the next. The calls are appended to a log kept in the session. Printing,
  plotting, tensor conversion and the IPython introspection cell
  \<^verbatim>\<open>pyro.sample??\<close> are left out of the log.

  A float literal of the notebook is modelled by the number its decimal notation
  denotes. The kernel object holds the model function and the step size, the sampler object
  holds the kernel and the two counts, as the constructor calls
  \<^verbatim>\<open>HMC(model, step_size = 0.1)\<close> and
  \<^verbatim>\<open>MCMC(hmc_kernel, num_samples=100, warmup_steps=100)\<close> pass them.
\<close>

datatype 'v kernel =
  HMC (kernel_model: "'v handler \<Rightarrow> 'v list \<Rightarrow> 'v trace \<Rightarrow> 'v trace") (step_size: real)

datatype 'v sampler =
  MCMC (sampler_kernel: "'v kernel") (num_samples: nat) (warmup_steps: nat)

datatype 'v call =
    SetRngSeed nat
  | FetchOpenml string nat
  | TrainTestSplit nat
  | TreeFit nat
  | TreeScore
  | TreePredict
  | ClearParamStore
  | NewHMC "'v kernel"
  | NewMCMC "'v sampler"
  | Run "'v sampler" "'v list"
  | GetSamples "'v sampler" nat
  | Summary "'v sampler" real

text \<open>
  The notebook's own code can fail in two places: the assertion on the library
  version, and the read of the global name \<^verbatim>\<open>mcmc\<close> by the analysis cell when
  no inference cell has bound it.
\<close>

datatype error = AssertionError | NameError

record 'v session =
  calls :: "'v call list"
  mcmc :: "'v sampler option"

definition fresh :: "'v session" where
  "fresh = \<lparr>calls = [], mcmc = None\<rparr>"

definition issue :: "'v call \<Rightarrow> 'v session \<Rightarrow> 'v session" where
  "issue c s = s\<lparr>calls := calls s @ [c]\<rparr>"

definition and_then :: "error + 'a \<Rightarrow> ('a \<Rightarrow> error + 'b) \<Rightarrow> error + 'b" where
  "and_then r f = (case r of Inl e \<Rightarrow> Inl e | Inr s \<Rightarrow> f s)"

text \<open>
  \<^verbatim>\<open>pyro.set_rng_seed(102563)\<close>, then
  \<^verbatim>\<open>assert pyro.__version__.startswith('1.5.0')\<close>. The version string is what
  the installed library reports.
\<close>

definition housekeeping :: "string \<Rightarrow> 'v session \<Rightarrow> error + 'v session" where
  "housekeeping pyro_version s =
     (let s1 = issue (SetRngSeed 102563) s
      in if prefix ''1.5.0'' pyro_version then Inr s1 else Inl AssertionError)"

text \<open>
  The data and classifier cells, in the notebook's order: fetch the data set, split it
  (\<^verbatim>\<open>random_state=1\<close>), fit the tree (\<^verbatim>\<open>min_samples_leaf=2\<close>), score
  it, split off the 100 examples (\<^verbatim>\<open>random_state=1\<close>), score on them, and
  predict on both test sets.
\<close>

definition fetch_cell :: "'v session \<Rightarrow> 'v session" where
  "fetch_cell s = issue (FetchOpenml ''mnist_784'' 1) s"

definition split_cell :: "'v session \<Rightarrow> 'v session" where
  "split_cell s = issue (TrainTestSplit 1) s"

definition fit_cell :: "'v session \<Rightarrow> 'v session" where
  "fit_cell s = issue (TreeFit 2) s"

definition score_cell :: "'v session \<Rightarrow> 'v session" where
  "score_cell s = issue TreeScore s"

definition observations_cell :: "'v session \<Rightarrow> 'v session" where
  "observations_cell s = issue TreePredict (issue TreePredict s)"

definition data_cells :: "'v session \<Rightarrow> 'v session" where
  "data_cells s =
     observations_cell (score_cell (split_cell (score_cell (fit_cell (split_cell
       (fetch_cell s))))))"

text \<open>
  The inference cell. Its argument \<open>y\<close> is the value of the global
  \<^verbatim>\<open>correctness_values_100\<close>, the correctness vector that the comparison of
  predictions and labels produced. The cell has no branch and no check.
\<close>

definition inference_cell :: "'v list \<Rightarrow> 'v session \<Rightarrow> error + 'v session" where
  "inference_cell y s =
     (let s1 = issue ClearParamStore s;
          hmc_kernel = HMC model 0.1;
          s2 = issue (NewHMC hmc_kernel) s1;
          m = MCMC hmc_kernel 100 100;
          s3 = issue (NewMCMC m) s2;
          s4 = issue (Run m y) s3
      in Inr (s4\<lparr>mcmc := Some m\<rparr>))"

text \<open>
  The analysis cell: \<^verbatim>\<open>mcmc.get_samples(num_samples=5000)\<close> for the plot,
  then \<^verbatim>\<open>mcmc.summary(prob=0.95)\<close>.
\<close>

definition analysis_cell :: "'v session \<Rightarrow> error + 'v session" where
  "analysis_cell s =
     (case mcmc s of
        None \<Rightarrow> Inl NameError
      | Some m \<Rightarrow> Inr (issue (Summary m 0.95) (issue (GetSamples m 5000) s)))"

definition notebook_to_inference ::
  "string \<Rightarrow> 'v list \<Rightarrow> 'v session \<Rightarrow> error + 'v session" where
  "notebook_to_inference pyro_version y s =
     and_then (housekeeping pyro_version s) (\<lambda>s1. inference_cell y (data_cells s1))"

definition notebook :: "string \<Rightarrow> 'v list \<Rightarrow> 'v session \<Rightarrow> error + 'v session" where
  "notebook pyro_version y s =
     and_then (notebook_to_inference pyro_version y s) analysis_cell"

text \<open>The calls of the three parts, for stating what a log looks like.\<close>

definition the_sampler :: "'v sampler" where
  "the_sampler = MCMC (HMC model 0.1) 100 100"

definition data_calls :: "'v call list" where
  "data_calls =
     [FetchOpenml ''mnist_784'' 1, TrainTestSplit 1, TreeFit 2, TreeScore,
      TrainTestSplit 1, TreeScore, TreePredict, TreePredict]"

definition setup_calls :: "'v call list" where
  "setup_calls = [ClearParamStore, NewHMC (HMC model 0.1), NewMCMC the_sampler]"

definition analysis_calls :: "'v call list" where
  "analysis_calls = [GetSamples the_sampler 5000, Summary the_sampler 0.95]"

definition is_seed :: "'v call \<Rightarrow> bool" where
  "is_seed c = (case c of SetRngSeed n \<Rightarrow> True | _ \<Rightarrow> False)"

text \<open>The calls that follow the clearing of the parameter store.\<close>

definition after_clear :: "'v list \<Rightarrow> 'v call list" where
  "after_clear y =
     [NewHMC (HMC model 0.1), NewMCMC the_sampler, Run the_sampler y,
      GetSamples the_sampler 5000, Summary the_sampler 0.95]"

text \<open>
  The state of the libraries. The random-number generator and pyro's parameter store
  are global to the process and live in the libraries, whose code is not part of the
  repository. Their behaviour is therefore a parameter, constrained only by what the
  calls are: \<open>seeded L n\<close> is the generator state that seeding with \<open>n\<close>
  produces; \<open>cleared L\<close> is the emptied parameter store; a scikit-learn call may
  advance the generator (\<open>sklearn_step\<close>) and knows nothing of pyro's store; every
  other pyro call may change generator and store together in any way
  (\<open>pyro_step\<close>); and what a call returns to the notebook is a function of the
  call and of the state in which it is entered (\<open>returns\<close>).
\<close>

record ('v, 'r, 'p, 'o) library =
  seeded :: "nat \<Rightarrow> 'r"
  cleared :: 'p
  sklearn_step :: "'v call \<Rightarrow> 'r \<Rightarrow> 'r"
  pyro_step :: "'v call \<Rightarrow> 'r \<times> 'p \<Rightarrow> 'r \<times> 'p"
  returns :: "'v call \<Rightarrow> 'r \<times> 'p \<Rightarrow> 'o"

text \<open>
  \<open>carry\<close> is the effect of a call that does not seed; seeding is added by
  \<open>lib_step\<close>. \<open>lib_after L st cs\<close> is the state after the log \<open>cs\<close>, started
  in \<open>st\<close>; \<open>carried\<close> is the same without any seeding.
\<close>

definition carry :: "('v, 'r, 'p, 'o) library \<Rightarrow> 'r \<times> 'p \<Rightarrow> 'v call \<Rightarrow> 'r \<times> 'p" where
  "carry L st c =
     (case c of
        SetRngSeed n \<Rightarrow> st
      | FetchOpenml nm ver \<Rightarrow> (sklearn_step L c (fst st), snd st)
      | TrainTestSplit rs \<Rightarrow> (sklearn_step L c (fst st), snd st)
      | TreeFit k \<Rightarrow> (sklearn_step L c (fst st), snd st)
      | TreeScore \<Rightarrow> (sklearn_step L c (fst st), snd st)
      | TreePredict \<Rightarrow> (sklearn_step L c (fst st), snd st)
      | ClearParamStore \<Rightarrow> (fst st, cleared L)
      | NewHMC k \<Rightarrow> pyro_step L c st
      | NewMCMC m \<Rightarrow> pyro_step L c st
      | Run m y \<Rightarrow> pyro_step L c st
      | GetSamples m n \<Rightarrow> pyro_step L c st
      | Summary m pr \<Rightarrow> pyro_step L c st)"

definition lib_step :: "('v, 'r, 'p, 'o) library \<Rightarrow> 'r \<times> 'p \<Rightarrow> 'v call \<Rightarrow> 'r \<times> 'p" where
  "lib_step L st c = (case c of SetRngSeed n \<Rightarrow> (seeded L n, snd st) | _ \<Rightarrow> carry L st c)"

definition lib_after ::
  "('v, 'r, 'p, 'o) library \<Rightarrow> 'r \<times> 'p \<Rightarrow> 'v call list \<Rightarrow> 'r \<times> 'p" where
  "lib_after L st cs = foldl (lib_step L) st cs"

definition carried ::
  "('v, 'r, 'p, 'o) library \<Rightarrow> 'r \<times> 'p \<Rightarrow> 'v call list \<Rightarrow> 'r \<times> 'p" where
  "carried L st cs = foldl (carry L) st cs"

text \<open>What the call at position \<open>k\<close> of a log returns, in a process started in \<open>st\<close>.\<close>

definition output_at ::
  "('v, 'r, 'p, 'o) library \<Rightarrow> 'r \<times> 'p \<Rightarrow> 'v call list \<Rightarrow> nat \<Rightarrow> 'o" where
  "output_at L st cs k = returns L (cs ! k) (lib_after L st (take k cs))"

text \<open>
  The generator used as an instance below: its state is a counter, seeding sets the
  counter to the seed, every scikit-learn and pyro call other than clearing takes one
  number; the store counts the pyro calls since it was cleared; a call returns the
  sum of the two.
\<close>

definition counting :: "('v, nat, nat, nat) library" where
  "counting =
     \<lparr>seeded = (\<lambda>n. n), cleared = 0, sklearn_step = (\<lambda>c r. r + 1),
      pyro_step = (\<lambda>c st. (fst st + 1, snd st + 1)),
      returns = (\<lambda>c st. fst st + snd st)\<rparr>"

section \<open>Properties of the model\<close>

lemma model_loop_trace:
  "i \<le> length y \<Longrightarrow>
   model_loop h p y i tr = tr @ map (obs_site p y) [i..<length y]"
proof (induction h p y i tr rule: model_loop.induct)
  case (1 h p y i tr)
  show ?case
  proof (cases "i < length y")
    case True
    have "model_loop h p y i tr = model_loop h p y (Suc i) (tr @ [obs_site p y i])"
      by (subst model_loop.simps) (simp add: True sample_def obs_site_def)
    also have "\<dots> = (tr @ [obs_site p y i]) @ map (obs_site p y) [Suc i..<length y]"
      using True "1.IH" [of "Bernoulli p" "sample h (obs_name i) (Bernoulli p) (Some (y ! i)) tr"]
      by (simp add: sample_def obs_site_def)
    also have "\<dots> = tr @ map (obs_site p y) [i..<length y]"
      using True by (simp add: upt_conv_Cons)
    finally show ?thesis .
  next
    case False
    with "1.prems" have "i = length y" by simp
    then show ?thesis by (subst model_loop.simps) simp
  qed
qed

lemma model_trace:
  "model h y [] =
     prior_site (h ''p'' (Uniform 0 1)) #
       map (obs_site (h ''p'' (Uniform 0 1)) y) [0..<length y]"
  by (simp add: model_def sample_def Let_def model_loop_trace prior_site_def)

lemma digit_val_digit_char: "d < 10 \<Longrightarrow> digit_val (digit_char d) = d"
proof -
  assume "d < 10"
  then have "d \<in> {0, 1, 2, 3, 4, 5, 6, 7, 8, 9}" by auto
  then show ?thesis
    by (auto simp: digit_val_def digit_char_def)
qed

lemma parse_format_nat: "parse_nat (format_nat n) = n"
proof (induction n rule: format_nat.induct)
  case (1 n)
  show ?case
  proof (cases "n < 10")
    case True
    then show ?thesis
      by (subst format_nat.simps) (simp add: parse_nat_def digit_val_digit_char)
  next
    case False
    with 1 have IH: "parse_nat (format_nat (n div 10)) = n div 10" by simp
    have "parse_nat (format_nat n) =
            10 * parse_nat (format_nat (n div 10)) + digit_val (digit_char (n mod 10))"
      using False by (subst format_nat.simps) (simp add: parse_nat_def)
    then show ?thesis
      by (simp add: IH digit_val_digit_char)
  qed
qed

lemma obs_name_inj: "obs_name i = obs_name j \<Longrightarrow> i = j"
  by (metis obs_name_def same_append_eq parse_format_nat)

lemma obs_name_not_p: "obs_name i \<noteq> ''p''"
  by (simp add: obs_name_def)

lemma model_names_distinct: "distinct (map name (model h y []))"
  by (auto simp: model_trace prior_site_def obs_site_def distinct_map inj_on_def o_def
      obs_name_not_p [symmetric] dest: obs_name_inj)

lemma model_unobserved: "filter (\<lambda>s. \<not> is_observed s) (model h y []) =
    [prior_site (h ''p'' (Uniform 0 1))]"
  by (simp add: model_trace prior_site_def obs_site_def filter_empty_conv)

text \<open>
  Claim C1. Run on an observation vector \<open>y\<close> of length \<open>N\<close> (in particular
  \<open>N \<ge> 1\<close>), the model records \<open>N + 1\<close> sites. The first is the one draw of
  \<open>p\<close> from the prior Uniform(0,1); it is the only site that is not observed, so
  \<open>p\<close> is drawn once. For each index \<open>i < N\<close> the site after it is a Bernoulli
  trial whose parameter is that one drawn \<open>p\<close>, marked observed and fixed to the
  value \<open>y[i]\<close>. The trials are separate sites: the names are pairwise different.
\<close>

theorem model_conditions_every_observation:
  "length (model h y []) = Suc (length y) \<and>
   model h y [] ! 0 = prior_site (h ''p'' (Uniform 0 1)) \<and>
   (\<forall>i<length y.
      model h y [] ! Suc i = obs_site (val (model h y [] ! 0)) y i \<and>
      fn (model h y [] ! Suc i) = Bernoulli (h ''p'' (Uniform 0 1)) \<and>
      is_observed (model h y [] ! Suc i) \<and>
      val (model h y [] ! Suc i) = y ! i) \<and>
   filter (\<lambda>s. \<not> is_observed s) (model h y []) = [model h y [] ! 0] \<and>
   distinct (map name (model h y []))"
proof -
  let ?p = "h ''p'' (Uniform 0 1)"
  have tr: "model h y [] = prior_site ?p # map (obs_site ?p y) [0..<length y]"
    by (rule model_trace)
  have len: "length (model h y []) = Suc (length y)"
    by (simp add: tr)
  have first: "model h y [] ! 0 = prior_site ?p"
    by (simp add: tr)
  have later: "model h y [] ! Suc i = obs_site ?p y i" if "i < length y" for i
    using that by (simp add: tr)
  have p: "val (model h y [] ! 0) = ?p"
    by (simp add: first prior_site_def)
  have each: "\<forall>i<length y.
      model h y [] ! Suc i = obs_site (val (model h y [] ! 0)) y i \<and>
      fn (model h y [] ! Suc i) = Bernoulli ?p \<and>
      is_observed (model h y [] ! Suc i) \<and>
      val (model h y [] ! Suc i) = y ! i"
    by (simp add: later p obs_site_def)
  have once: "filter (\<lambda>s. \<not> is_observed s) (model h y []) = [model h y [] ! 0]"
    by (simp add: model_unobserved first)
  from len first each once model_names_distinct [of h y] show ?thesis
    by blast
qed

theorem model_conditions_every_observation_witness:
  "(2::nat) < length [1, 0, 1 :: real] \<and>
   model (\<lambda>_ _. 1 / 2) [1, 0, 1 :: real] [] ! Suc 2 =
     \<lparr>name = ''obs_2'', fn = Bernoulli (1 / 2), is_observed = True, val = 1\<rparr> \<and>
   model (\<lambda>_ _. 1 / 2) [1, 0, 1 :: real] [] ! 0 =
     \<lparr>name = ''p'', fn = Uniform 0 1, is_observed = False, val = 1 / 2\<rparr>"
proof -
  let ?h = "(\<lambda>_ _. 1 / 2) :: real handler"
  let ?y = "[1, 0, 1 :: real]"
  have i: "(2::nat) < length ?y" by simp
  note main = model_conditions_every_observation [of ?h ?y]
  from main have first: "model ?h ?y [] ! 0 = prior_site (1 / 2)"
    by blast
  from main i have "model ?h ?y [] ! Suc 2 = obs_site (val (model ?h ?y [] ! 0)) ?y 2"
    by blast
  then have site: "model ?h ?y [] ! Suc 2 = obs_site (1 / 2) ?y 2"
    by (simp add: first prior_site_def)
  have name: "obs_name 2 = ''obs_2''"
    by (simp add: obs_name_def format_nat.simps digit_char_def)
  show ?thesis
    using i first site by (simp add: prior_site_def obs_site_def name)
qed

section \<open>Properties of the likelihood\<close>








section \<open>Properties of the cells\<close>

lemma inference_cell_calls:
  "inference_cell y s =
     Inr (s\<lparr>calls := calls s @ setup_calls @ [Run the_sampler y], mcmc := Some the_sampler\<rparr>)"
  by (simp add: inference_cell_def issue_def setup_calls_def the_sampler_def Let_def)

lemma data_cells_calls: "data_cells s = s\<lparr>calls := calls s @ data_calls\<rparr>"
  by (simp add: data_cells_def observations_cell_def score_cell_def split_cell_def
      fit_cell_def fetch_cell_def issue_def data_calls_def)

lemma housekeeping_Inr:
  "housekeeping ver s = Inr s1 \<Longrightarrow>
   prefix ''1.5.0'' ver \<and> s1 = s\<lparr>calls := calls s @ [SetRngSeed 102563]\<rparr>"
  by (auto simp: housekeeping_def issue_def Let_def split: if_splits)

lemma housekeeping_ok:
  "prefix ''1.5.0'' ver \<Longrightarrow> housekeeping ver s = Inr (s\<lparr>calls := calls s @ [SetRngSeed 102563]\<rparr>)"
  by (simp add: housekeeping_def issue_def Let_def)

lemma notebook_to_inference_Inr:
  assumes "notebook_to_inference ver y fresh = Inr s1"
  shows "s1 = \<lparr>calls = SetRngSeed 102563 # data_calls @ setup_calls @ [Run the_sampler y],
               mcmc = Some the_sampler\<rparr>"
  using assms
  by (auto simp: notebook_to_inference_def and_then_def fresh_def inference_cell_calls
      data_cells_calls dest!: housekeeping_Inr split: sum.splits)

lemma notebook_to_inference_ok:
  assumes "prefix ''1.5.0'' ver"
  shows "notebook_to_inference ver y fresh =
     Inr \<lparr>calls = SetRngSeed 102563 # data_calls @ setup_calls @ [Run the_sampler y],
               mcmc = Some the_sampler\<rparr>"
  using assms
  by (simp add: notebook_to_inference_def and_then_def fresh_def inference_cell_calls
      data_cells_calls housekeeping_ok)

lemma analysis_cell_Inr:
  "analysis_cell s = Inr s' \<Longrightarrow> mcmc s = Some the_sampler \<Longrightarrow>
   s' = s\<lparr>calls := calls s @ analysis_calls\<rparr>"
  by (auto simp: analysis_cell_def issue_def analysis_calls_def)

lemma no_seed_data: "\<forall>c\<in>set (data_calls :: 'v call list). \<not> is_seed c"
  by (simp add: data_calls_def is_seed_def)

lemma no_seed_setup: "\<forall>c\<in>set (setup_calls :: 'v call list). \<not> is_seed c"
  by (simp add: setup_calls_def is_seed_def)

lemma no_seed_analysis: "\<forall>c\<in>set (analysis_calls :: 'v call list). \<not> is_seed c"
  by (simp add: analysis_calls_def is_seed_def)

lemma filter_no_seed: "\<forall>c\<in>set cs. \<not> is_seed c \<Longrightarrow> filter is_seed cs = []"
  by (simp add: filter_empty_conv)

lemma is_seed_SetRngSeed: "is_seed (SetRngSeed n)"
  by (simp add: is_seed_def)

lemma no_seed_run: "\<not> is_seed (Run m y)"
  by (simp add: is_seed_def)

lemma lib_after_append:
  "lib_after L st (cs @ ds) = lib_after L (lib_after L st cs) ds"
  by (simp add: lib_after_def)

lemma lib_after_seed_first:
  "lib_after L st (SetRngSeed n # cs) = lib_after L (seeded L n, snd st) cs"
  by (simp add: lib_after_def lib_step_def)

lemma lib_after_no_seed:
  "\<forall>c\<in>set cs. \<not> is_seed c \<Longrightarrow> lib_after L st cs = carried L st cs"
  by (induction cs arbitrary: st)
    (auto simp: lib_after_def carried_def lib_step_def is_seed_def split: call.splits)

lemma carried_data_calls:
  "carried L (r, p) data_calls = (foldl (\<lambda>r c. sklearn_step L c r) r data_calls, p)"
  by (simp add: carried_def carry_def data_calls_def)

lemma lib_after_prelude:
  "lib_after L st (SetRngSeed n # data_calls @ [ClearParamStore]) =
     (foldl (\<lambda>r c. sklearn_step L c r) (seeded L n) data_calls, cleared L)"
proof -
  have "lib_after L st (SetRngSeed n # data_calls @ [ClearParamStore]) =
          lib_after L (lib_after L (seeded L n, snd st) data_calls) [ClearParamStore]"
    by (simp only: lib_after_seed_first lib_after_append)
  also have "lib_after L (seeded L n, snd st) data_calls =
               carried L (seeded L n, snd st) data_calls"
    by (rule lib_after_no_seed) (simp add: data_calls_def is_seed_def)
  finally show ?thesis
    by (simp add: carried_data_calls lib_after_def lib_step_def carry_def)
qed


lemma notebook_Inr:
  assumes "notebook ver y fresh = Inr s"
  shows "s = \<lparr>calls = SetRngSeed 102563 # data_calls @ setup_calls @ [Run the_sampler y] @
                 analysis_calls,
              mcmc = Some the_sampler\<rparr>"
proof -
  from assms obtain s1 where s1: "notebook_to_inference ver y fresh = Inr s1"
    and s: "analysis_cell s1 = Inr s"
    by (auto simp: notebook_def and_then_def split: sum.splits)
  from s1 have e1: "s1 = \<lparr>calls = SetRngSeed 102563 # data_calls @ setup_calls @
      [Run the_sampler y], mcmc = Some the_sampler\<rparr>"
    by (rule notebook_to_inference_Inr)
  with s have "s = s1\<lparr>calls := calls s1 @ analysis_calls\<rparr>"
    by (intro analysis_cell_Inr) simp_all
  with e1 show ?thesis by simp
qed

lemma notebook_log_split:
  "SetRngSeed 102563 # data_calls @ setup_calls @ [Run the_sampler y] @ analysis_calls =
   (SetRngSeed 102563 # data_calls @ [ClearParamStore]) @ after_clear y"
  by (simp add: setup_calls_def analysis_calls_def after_clear_def)

lemma length_prelude: "length (SetRngSeed 102563 # data_calls @ [ClearParamStore]) = 10"
  by (simp add: data_calls_def)

lemma lib_after_take_notebook:
  fixes y :: "'v list"
  assumes "10 \<le> k"
  shows "lib_after L st
           (take k ((SetRngSeed 102563 # data_calls @ [ClearParamStore]) @ after_clear y)) =
         lib_after L
           (foldl (\<lambda>r c. sklearn_step L c r) (seeded L 102563) data_calls, cleared L)
           (take (k - 10) (after_clear y))"
proof -
  let ?pre = "SetRngSeed 102563 # data_calls @ [ClearParamStore] :: 'v call list"
  have "length ?pre = 10"
    by (rule length_prelude)
  with assms have "take k (?pre @ after_clear y) = ?pre @ take (k - 10) (after_clear y)"
    by (simp only: take_append) simp
  then show ?thesis
    by (simp only: lib_after_append lib_after_prelude)
qed

lemma notebook_ok:
  assumes "prefix ''1.5.0'' ver"
  shows "notebook ver y fresh =
     Inr \<lparr>calls = SetRngSeed 102563 # data_calls @ setup_calls @ [Run the_sampler y] @
                 analysis_calls,
              mcmc = Some the_sampler\<rparr>"
  using assms
  by (simp add: notebook_def notebook_to_inference_ok and_then_def analysis_cell_def
      issue_def analysis_calls_def)

text \<open>
  Claim C2, as the notebook has it. The notebook has no check on the length of the
  observation vector. For the empty vector the inference cell reports no error: it
  clears the parameter store, builds the kernel and the sampler, and invokes the
  sampler's run on the empty vector, exactly as for any other vector; nothing comes
  between the construction of the sampler and the run. The model that the sampler's
  kernel holds, executed on the empty vector, raises nothing either: it records the
  prior draw of \<open>p\<close> and conditions no trial.
\<close>

theorem empty_observations_are_sampled:
  "inference_cell [] s =
     Inr (s\<lparr>calls := calls s @ setup_calls @ [Run the_sampler []],
            mcmc := Some the_sampler\<rparr>) \<and>
   kernel_model (sampler_kernel the_sampler) h [] [] = [prior_site (h ''p'' (Uniform 0 1))]"
  by (simp add: inference_cell_calls the_sampler_def model_trace)

text \<open>
  The whole notebook on an empty correctness vector, with a library version that passes
  the assertion: it ends without an error, and the log holds the run of the sampler on
  the empty vector, followed by the calls of the analysis cell.
\<close>

theorem empty_observations_counterexample:
  "notebook ''1.5.0'' ([] :: real list) fresh =
     Inr \<lparr>calls =
            [SetRngSeed 102563, FetchOpenml ''mnist_784'' 1, TrainTestSplit 1, TreeFit 2,
             TreeScore, TrainTestSplit 1, TreeScore, TreePredict, TreePredict,
             ClearParamStore, NewHMC (HMC model (1 / 10)),
             NewMCMC (MCMC (HMC model (1 / 10)) 100 100),
             Run (MCMC (HMC model (1 / 10)) 100 100) [],
             GetSamples (MCMC (HMC model (1 / 10)) 100 100) 5000,
             Summary (MCMC (HMC model (1 / 10)) 100 100) (95 / 100)],
          mcmc = Some (MCMC (HMC model (1 / 10)) 100 100)\<rparr> \<and>
   model (\<lambda>_ _. 1 / 2) ([] :: real list) [] =
     [\<lparr>name = ''p'', fn = Uniform 0 1, is_observed = False, val = 1 / 2\<rparr>]"
  by (simp add: notebook_def notebook_to_inference_ok and_then_def analysis_cell_def
      issue_def data_calls_def setup_calls_def the_sampler_def model_trace prior_site_def)



lemma run_entry_state:
  fixes y :: "'v list" and L :: "('v, 'r, 'p, 'o) library"
  shows "lib_after L st
           (take 12 ((SetRngSeed 102563 # data_calls @ [ClearParamStore]) @ after_clear y)) =
         pyro_step L (NewMCMC the_sampler)
           (pyro_step L (NewHMC (HMC model 0.1))
              (foldl (\<lambda>r c. sklearn_step L c r) (seeded L 102563) data_calls, cleared L))"
proof -
  have "(10 :: nat) \<le> 12" by simp
  then have "lib_after L st
           (take 12 ((SetRngSeed 102563 # data_calls @ [ClearParamStore]) @ after_clear y)) =
         lib_after L
           (foldl (\<lambda>r c. sklearn_step L c r) (seeded L 102563) data_calls, cleared L)
           (take (12 - 10) (after_clear y))"
    by (rule lib_after_take_notebook)
  then show ?thesis
    by (simp add: after_clear_def lib_after_def lib_step_def carry_def)
qed

text \<open>
  Claim C5, as the notebook has it. The seed, the step size, the warm-up count and
  the sample counts are literals of the notebook. Two executions of the whole
  notebook on the same observation vector \<open>y\<close>, each beginning with the seeding
  call, issue the same log; they may start in different generator states and with
  different contents of the parameter store (\<open>st\<close> and \<open>st'\<close>). The sampler
  that is run holds the model, which on \<open>y\<close> and under the same handler records
  the same trace. The run of the sampler (position 12 of the log) is entered in the
  state obtained from the seeded generator by the data calls, the cleared store, and
  the two constructor calls, in that order; the state does not depend on the state
  in which the process started. So, for libraries that are deterministic functions
  of generator state and parameter store, the run and \<^verbatim>\<open>get_samples\<close>
  (position 13), which returns the posterior sample sequence, return the same
  values in both executions. Two runs of the inference cell inside one process are
  not covered: the second is not seeded again.
\<close>

theorem notebook_runs_agree_from_seed:
  fixes L :: "('v, 'r, 'p, 'o) library" and h :: "'v handler"
  assumes run: "notebook pyro_version y fresh = Inr s"
  shows "calls s ! 12 = Run the_sampler y \<and>
         calls s ! 13 = GetSamples the_sampler 5000 \<and>
         kernel_model (sampler_kernel the_sampler) h y [] =
           prior_site (h ''p'' (Uniform 0 1)) #
             map (obs_site (h ''p'' (Uniform 0 1)) y) [0..<length y] \<and>
         lib_after L st (take 12 (calls s)) =
           pyro_step L (NewMCMC the_sampler)
             (pyro_step L (NewHMC (HMC model 0.1))
                (foldl (\<lambda>r c. sklearn_step L c r) (seeded L 102563) data_calls,
                 cleared L)) \<and>
         output_at L st (calls s) 12 = output_at L st' (calls s) 12 \<and>
         output_at L st (calls s) 13 = output_at L st' (calls s) 13"
proof -
  let ?log = "(SetRngSeed 102563 # data_calls @ [ClearParamStore]) @ after_clear y"
  have c: "calls s = ?log"
    using notebook_Inr [OF run] by (simp only: notebook_log_split [symmetric]) simp
  have run_call: "calls s ! 12 = Run the_sampler y"
    by (simp add: c data_calls_def after_clear_def)
  have get_call: "calls s ! 13 = GetSamples the_sampler 5000"
    by (simp add: c data_calls_def after_clear_def)
  have trace: "kernel_model (sampler_kernel the_sampler) h y [] =
      prior_site (h ''p'' (Uniform 0 1)) #
        map (obs_site (h ''p'' (Uniform 0 1)) y) [0..<length y]"
    by (simp add: the_sampler_def model_trace)
  have entry: "lib_after L st (take 12 (calls s)) =
      pyro_step L (NewMCMC the_sampler)
        (pyro_step L (NewHMC (HMC model 0.1))
           (foldl (\<lambda>r c. sklearn_step L c r) (seeded L 102563) data_calls, cleared L))"
    unfolding c by (rule run_entry_state)
  have out: "output_at L st (calls s) k = output_at L st' (calls s) k" if "10 \<le> k" for k
    unfolding output_at_def c lib_after_take_notebook [OF that] ..
  have o12: "output_at L st (calls s) 12 = output_at L st' (calls s) 12"
    by (rule out) simp
  have o13: "output_at L st (calls s) 13 = output_at L st' (calls s) 13"
    by (rule out) simp
  from run_call get_call trace entry o12 o13 show ?thesis
    by blast
qed

text \<open>
  An instance with the counting generator: two executions that start in the states
  \<open>(0, 5)\<close> and \<open>(7, 9)\<close> both enter the run in \<open>(102573, 2)\<close> and get 102575
  from it.
\<close>

theorem notebook_runs_agree_from_seed_witness:
  "notebook ''1.5.0'' [1, 0 :: real] fresh =
     Inr \<lparr>calls = SetRngSeed 102563 # data_calls @ setup_calls @ [Run the_sampler [1, 0]] @
            analysis_calls,
          mcmc = Some the_sampler\<rparr> \<and>
   output_at counting (0, 5)
     (SetRngSeed 102563 # data_calls @ setup_calls @ [Run the_sampler [1, 0 :: real]] @
        analysis_calls) 12 =
   output_at counting (7, 9)
     (SetRngSeed 102563 # data_calls @ setup_calls @ [Run the_sampler [1, 0 :: real]] @
        analysis_calls) 12 \<and>
   output_at counting (7, 9)
     (SetRngSeed 102563 # data_calls @ setup_calls @ [Run the_sampler [1, 0 :: real]] @
        analysis_calls) 12 = 102575 \<and>
   lib_after counting (0, 5)
     (take 12 (SetRngSeed 102563 # data_calls @ setup_calls @
        [Run the_sampler [1, 0 :: real]] @ analysis_calls)) = (102573, 2)"
proof -
  let ?y = "[1, 0 :: real]"
  let ?log = "SetRngSeed 102563 # data_calls @ setup_calls @ [Run the_sampler ?y] @
    analysis_calls"
  let ?s = "\<lparr>calls = ?log, mcmc = Some the_sampler\<rparr>"
  let ?L = "counting :: (real, nat, nat, nat) library"
  have h1: "notebook ''1.5.0'' ?y fresh = Inr ?s"
    by (simp add: notebook_ok)
  note main = notebook_runs_agree_from_seed [OF h1, of "\<lambda>_ _. 1 / 2" ?L "(0, 5)" "(7, 9)"]
  from main have agree: "output_at ?L (0, 5) (calls ?s) 12 = output_at ?L (7, 9) (calls ?s) 12"
    by blast
  from main have entry: "lib_after ?L (0, 5) (take 12 (calls ?s)) =
      pyro_step ?L (NewMCMC the_sampler)
        (pyro_step ?L (NewHMC (HMC model 0.1))
           (foldl (\<lambda>r c. sklearn_step ?L c r) (seeded ?L 102563) data_calls, cleared ?L))"
    by blast
  have e: "pyro_step ?L (NewMCMC the_sampler)
        (pyro_step ?L (NewHMC (HMC model 0.1))
           (foldl (\<lambda>r c. sklearn_step ?L c r) (seeded ?L 102563) data_calls, cleared ?L)) =
      (102573, 2)"
    by (simp add: counting_def data_calls_def)
  have v: "output_at ?L (7, 9) ?log 12 = 102575"
    by (simp add: output_at_def lib_after_def lib_step_def carry_def counting_def
        data_calls_def setup_calls_def analysis_calls_def)
  from h1 agree v entry e show ?thesis
    by simp
qed

text \<open>
  Two runs of the inference procedure in one process, on the same vector, with the
  same literals and the store cleared before each: the notebook, then the inference
  and analysis cells once more. With the counting generator the first run (position
  12) returns 102575 and the second (position 18) returns 102580, and
  \<^verbatim>\<open>get_samples\<close> returns 102577 and then 102582.
\<close>

theorem second_run_in_process_counterexample:
  "notebook ''1.5.0'' [1, 0 :: real] fresh =
     Inr \<lparr>calls = SetRngSeed 102563 # data_calls @ setup_calls @ [Run the_sampler [1, 0]] @
            analysis_calls,
          mcmc = Some the_sampler\<rparr> \<and>
   and_then
     (inference_cell [1, 0 :: real]
        \<lparr>calls = SetRngSeed 102563 # data_calls @ setup_calls @ [Run the_sampler [1, 0]] @
           analysis_calls,
         mcmc = Some the_sampler\<rparr>)
     analysis_cell =
     Inr \<lparr>calls = SetRngSeed 102563 # data_calls @
            setup_calls @ [Run the_sampler [1, 0]] @ analysis_calls @
            setup_calls @ [Run the_sampler [1, 0]] @ analysis_calls,
          mcmc = Some the_sampler\<rparr> \<and>
   (SetRngSeed 102563 # data_calls @
      setup_calls @ [Run the_sampler [1, 0 :: real]] @ analysis_calls @
      setup_calls @ [Run the_sampler [1, 0]] @ analysis_calls) ! 12 = Run the_sampler [1, 0] \<and>
   (SetRngSeed 102563 # data_calls @
      setup_calls @ [Run the_sampler [1, 0 :: real]] @ analysis_calls @
      setup_calls @ [Run the_sampler [1, 0]] @ analysis_calls) ! 18 = Run the_sampler [1, 0] \<and>
   (SetRngSeed 102563 # data_calls @
      setup_calls @ [Run the_sampler [1, 0 :: real]] @ analysis_calls @
      setup_calls @ [Run the_sampler [1, 0]] @ analysis_calls) ! 9 = ClearParamStore \<and>
   (SetRngSeed 102563 # data_calls @
      setup_calls @ [Run the_sampler [1, 0 :: real]] @ analysis_calls @
      setup_calls @ [Run the_sampler [1, 0]] @ analysis_calls) ! 15 = ClearParamStore \<and>
   output_at counting (0, 5)
     (SetRngSeed 102563 # data_calls @
        setup_calls @ [Run the_sampler [1, 0 :: real]] @ analysis_calls @
        setup_calls @ [Run the_sampler [1, 0]] @ analysis_calls) 12 = 102575 \<and>
   output_at counting (0, 5)
     (SetRngSeed 102563 # data_calls @
        setup_calls @ [Run the_sampler [1, 0 :: real]] @ analysis_calls @
        setup_calls @ [Run the_sampler [1, 0]] @ analysis_calls) 18 = 102580 \<and>
   output_at counting (0, 5)
     (SetRngSeed 102563 # data_calls @
        setup_calls @ [Run the_sampler [1, 0 :: real]] @ analysis_calls @
        setup_calls @ [Run the_sampler [1, 0]] @ analysis_calls) 13 = 102577 \<and>
   output_at counting (0, 5)
     (SetRngSeed 102563 # data_calls @
        setup_calls @ [Run the_sampler [1, 0 :: real]] @ analysis_calls @
        setup_calls @ [Run the_sampler [1, 0]] @ analysis_calls) 19 = 102582"
  by (simp add: notebook_ok inference_cell_calls and_then_def analysis_cell_def issue_def
      output_at_def lib_after_def lib_step_def carry_def counting_def
      data_calls_def setup_calls_def analysis_calls_def)

text \<open>
  Claim C10. \<^verbatim>\<open>pyro.set_rng_seed(102563)\<close> is the first call of the notebook,
  before every call that loads data, trains, or infers. It is the only seeding call:
  the inference cell takes the observation vector and nothing else, and issues no
  seeding call, so in a process that runs the notebook through the first inference
  and the analysis and then runs the inference cell a second time (on any vector
  \<open>y'\<close>), the log still holds exactly one seeding call. For every behaviour of
  the libraries and whatever state \<open>st0\<close> the process started in, the state in
  which the first run is entered is the seeded state carried through the calls
  before it, and the state in which the second run is entered is the state in
  which the first run was entered, carried through the first run, the analysis and
  the set-up calls of the second cell, with no seeding in between: the second run
  continues the stream and does not restart from the seed. The generator state at a
  run is thus fixed by the seed together with the run's position in the sequence of
  calls.
\<close>

theorem seed_set_once_for_the_process:
  fixes L :: "('v, 'r, 'p, 'o) library"
  assumes first: "notebook_to_inference pyro_version y fresh = Inr s1"
      and shown: "analysis_cell s1 = Inr s2"
      and second: "inference_cell y' s2 = Inr s3"
  shows "calls s1 = SetRngSeed 102563 # data_calls @ setup_calls @ [Run the_sampler y] \<and>
         calls s3 = calls s1 @ analysis_calls @ setup_calls @ [Run the_sampler y'] \<and>
         filter is_seed (calls s3) = [SetRngSeed 102563] \<and>
         lib_after L st0 (butlast (calls s1)) =
           carried L (seeded L 102563, snd st0) (data_calls @ setup_calls) \<and>
         lib_after L st0 (butlast (calls s3)) =
           carried L (lib_after L st0 (butlast (calls s1)))
             (Run the_sampler y # analysis_calls @ setup_calls)"
proof -
  let ?run = "Run the_sampler y :: 'v call"
  have s1: "s1 = \<lparr>calls = SetRngSeed 102563 # data_calls @ setup_calls @ [?run],
                  mcmc = Some the_sampler\<rparr>"
    using first by (rule notebook_to_inference_Inr)
  then have c1: "calls s1 = SetRngSeed 102563 # data_calls @ setup_calls @ [?run]"
    by simp
  have s2: "s2 = s1\<lparr>calls := calls s1 @ analysis_calls\<rparr>"
    using shown s1 by (intro analysis_cell_Inr) simp_all
  have c3: "calls s3 = calls s1 @ analysis_calls @ setup_calls @ [Run the_sampler y']"
    using second by (auto simp: inference_cell_calls s2)
  have once: "filter is_seed (calls s3) = [SetRngSeed 102563]"
    by (simp add: c3 c1 no_seed_run is_seed_SetRngSeed filter_no_seed
        no_seed_data no_seed_setup no_seed_analysis)
  have b1: "butlast (calls s1) = SetRngSeed 102563 # data_calls @ setup_calls"
    by (simp add: c1 butlast_append)
  have "\<forall>c\<in>set (data_calls @ setup_calls :: 'v call list). \<not> is_seed c"
    by (simp add: no_seed_data no_seed_setup ball_Un)
  then have "lib_after L (seeded L 102563, snd st0) (data_calls @ setup_calls) =
               carried L (seeded L 102563, snd st0) (data_calls @ setup_calls)"
    by (rule lib_after_no_seed)
  then have r1: "lib_after L st0 (butlast (calls s1)) =
              carried L (seeded L 102563, snd st0) (data_calls @ setup_calls)"
    by (simp only: b1 lib_after_seed_first)
  have b3: "butlast (calls s3) =
              butlast (calls s1) @ (?run # analysis_calls @ setup_calls)"
    by (simp add: c3 c1 butlast_append)
  have "\<forall>c\<in>set (?run # analysis_calls @ setup_calls). \<not> is_seed c"
    by (simp add: no_seed_run no_seed_analysis no_seed_setup ball_Un)
  then have r3: "lib_after L st0 (butlast (calls s3)) =
              carried L (lib_after L st0 (butlast (calls s1)))
                (?run # analysis_calls @ setup_calls)"
    unfolding b3 lib_after_append by (rule lib_after_no_seed)
  from c1 c3 once r1 r3 show ?thesis by blast
qed

text \<open>
  An instance with the counting generator: the first run is entered with the counter
  at 102573, the second with the counter at 102578.
\<close>

theorem seed_set_once_for_the_process_witness:
  "notebook_to_inference ''1.5.0'' [1, 0 :: real] fresh =
     Inr \<lparr>calls = SetRngSeed 102563 # data_calls @ setup_calls @ [Run the_sampler [1, 0]],
          mcmc = Some the_sampler\<rparr> \<and>
   analysis_cell
     \<lparr>calls = SetRngSeed 102563 # data_calls @ setup_calls @ [Run the_sampler [1, 0 :: real]],
      mcmc = Some the_sampler\<rparr> =
     Inr \<lparr>calls = SetRngSeed 102563 # data_calls @ setup_calls @ [Run the_sampler [1, 0]] @
            analysis_calls,
          mcmc = Some the_sampler\<rparr> \<and>
   inference_cell [1, 0 :: real]
     \<lparr>calls = SetRngSeed 102563 # data_calls @ setup_calls @ [Run the_sampler [1, 0]] @
        analysis_calls,
      mcmc = Some the_sampler\<rparr> =
     Inr \<lparr>calls = SetRngSeed 102563 # data_calls @ setup_calls @ [Run the_sampler [1, 0]] @
            analysis_calls @ setup_calls @ [Run the_sampler [1, 0]],
          mcmc = Some the_sampler\<rparr> \<and>
   lib_after counting (0, 5)
     (SetRngSeed 102563 # data_calls @ (setup_calls :: real call list)) = (102573, 2) \<and>
   lib_after counting (0, 5)
     (SetRngSeed 102563 # data_calls @ setup_calls @ [Run the_sampler [1, 0 :: real]] @
        analysis_calls @ setup_calls) = (102578, 2)"
proof -
  let ?y = "[1, 0 :: real]"
  let ?c1 = "SetRngSeed 102563 # data_calls @ setup_calls @ [Run the_sampler ?y]"
  let ?s1 = "\<lparr>calls = ?c1, mcmc = Some the_sampler\<rparr>"
  let ?s2 = "\<lparr>calls = ?c1 @ analysis_calls, mcmc = Some the_sampler\<rparr>"
  let ?s3 = "\<lparr>calls = ?c1 @ analysis_calls @ setup_calls @ [Run the_sampler ?y],
             mcmc = Some the_sampler\<rparr>"
  let ?L = "counting :: (real, nat, nat, nat) library"
  have h1: "notebook_to_inference ''1.5.0'' ?y fresh = Inr ?s1"
    by (simp add: notebook_to_inference_ok)
  have h2: "analysis_cell ?s1 = Inr ?s2"
    by (simp add: analysis_cell_def issue_def analysis_calls_def)
  have h3: "inference_cell ?y ?s2 = Inr ?s3"
    by (simp add: inference_cell_calls)
  note main = seed_set_once_for_the_process [OF h1 h2 h3, of ?L "(0, 5)"]
  have b1: "butlast (calls ?s1) = SetRngSeed 102563 # data_calls @ setup_calls"
    by (simp add: butlast_append)
  have b3: "butlast (calls ?s3) =
      SetRngSeed 102563 # data_calls @ setup_calls @ [Run the_sampler ?y] @
        analysis_calls @ setup_calls"
    by (simp add: butlast_append)
  from main have r1: "lib_after ?L (0, 5) (butlast (calls ?s1)) =
      carried ?L (seeded ?L 102563, snd (0 :: nat, 5 :: nat)) (data_calls @ setup_calls)"
    by blast
  from main have r3: "lib_after ?L (0, 5) (butlast (calls ?s3)) =
      carried ?L (lib_after ?L (0, 5) (butlast (calls ?s1)))
        (Run the_sampler ?y # analysis_calls @ setup_calls)"
    by blast
  have v1: "carried ?L (seeded ?L 102563, snd (0 :: nat, 5 :: nat)) (data_calls @ setup_calls)
      = (102573, 2)"
    by (simp add: carried_def carry_def counting_def data_calls_def setup_calls_def)
  have v3: "carried ?L (102573, 2) (Run the_sampler ?y # analysis_calls @ setup_calls) =
      (102578, 2)"
    by (simp add: carried_def carry_def counting_def analysis_calls_def setup_calls_def)
  from r1 v1 have e1: "lib_after ?L (0, 5) (SetRngSeed 102563 # data_calls @ setup_calls) =
      (102573, 2)"
    by (simp only: b1)
  from r3 r1 v1 v3 have e3: "lib_after ?L (0, 5)
      (SetRngSeed 102563 # data_calls @ setup_calls @ [Run the_sampler ?y] @
        analysis_calls @ setup_calls) = (102578, 2)"
    by (simp only: b3)
  from h1 h2 h3 e1 e3 show ?thesis
    by simp
qed

end
